theory Spec2Isabelle
  imports Main
begin

section \<open>JavaScript values used by the daemon supervisor\<close>

text \<open>
  The supervisor (\<^verbatim>\<open>src/ipfs-daemon.js\<close>) handles plain option objects, strings and
  error values. An object literal is an association list from property names to values,
  in insertion order; a well-formed object has pairwise distinct property names.
\<close>

datatype jsval =
    JUndefined
  | JNull
  | JStr string
  | JArr "jsval list"
  | JObj "(string \<times> jsval) list"

type_synonym jsobj = "(string \<times> jsval) list"

text \<open>\<^verbatim>\<open>target[k] = v\<close>: an existing property keeps its position, a new one is appended.\<close>

fun obj_set :: "jsobj \<Rightarrow> string \<Rightarrow> jsval \<Rightarrow> jsobj" where
  "obj_set [] k v = [(k, v)]"
| "obj_set ((k', v') # ps) k v =
     (if k' = k then (k, v) # ps else (k', v') # obj_set ps k v)"

text \<open>
  \<^verbatim>\<open>Object.assign(target, source)\<close> copies the own enumerable properties of the source
  onto the target, one assignment after the other; an \<^verbatim>\<open>undefined\<close> or \<^verbatim>\<open>null\<close> source
  (here \<open>None\<close>) is skipped.
\<close>

definition object_assign :: "jsobj \<Rightarrow> jsobj option \<Rightarrow> jsobj" where
  "object_assign target source =
     (case source of
        None \<Rightarrow> target
      | Some src \<Rightarrow> fold (\<lambda>(k, v) t. obj_set t k v) src target)"

text \<open>Property read \<^verbatim>\<open>obj.k\<close>: a missing property reads as \<^verbatim>\<open>undefined\<close>.\<close>

definition obj_get :: "jsobj \<Rightarrow> string \<Rightarrow> jsval" where
  "obj_get obj k = (case map_of obj k of None \<Rightarrow> JUndefined | Some v \<Rightarrow> v)"

section \<open>Configuration\<close>

text \<open>
  \<^verbatim>\<open>defaultOptions\<close> (lines 15-28). The only input is the environment variable
  \<^verbatim>\<open>IPFS_PATH\<close>, read once at module load: \<^verbatim>\<open>process.env.IPFS_PATH || './ipfs'\<close>, so an
  unset or empty variable gives \<^verbatim>\<open>'./ipfs'\<close>.
\<close>

definition defaultOptions :: "string option \<Rightarrow> jsobj" where
  "defaultOptions env_IPFS_PATH =
     [(''IpfsDataDir'',
         JStr (case env_IPFS_PATH of
                 None \<Rightarrow> ''./ipfs''
               | Some p \<Rightarrow> if p = [] then ''./ipfs'' else p)),
      (''LogDirectory'', JStr ''/tmp''),
      (''Addresses'',
         JObj [(''API'', JStr ''/ip4/127.0.0.1/tcp/5001''),
               (''Swarm'', JArr [JStr ''/ip4/0.0.0.0/tcp/4001'']),
               (''Gateway'', JStr ''/ip4/0.0.0.0/tcp/8080'')]),
      (''Flags'', JArr [JStr ''--enable-pubsub-experiment''])]"

text \<open>
  Lines 37-39 of the constructor:
  \<^verbatim>\<open>let opts = Object.assign({}, defaultOptions); Object.assign(opts, options)\<close>.
\<close>

definition merge_options :: "string option \<Rightarrow> jsobj option \<Rightarrow> jsobj" where
  "merge_options env_IPFS_PATH options =
     (let opts = object_assign [] (Some (defaultOptions env_IPFS_PATH))
      in object_assign opts options)"

section \<open>Error values and pattern matching\<close>

text \<open>
  A value passed as \<^verbatim>\<open>err\<close> to a callback, thrown, or handed to a rejection: an
  \<^verbatim>\<open>Error\<close> object (name and message) or a plain string. \<^verbatim>\<open>null\<close> and \<^verbatim>\<open>undefined\<close>
  are \<open>None\<close> of \<open>js_error option\<close>.
\<close>

datatype js_error = ErrorObj string string | ErrString string

text \<open>\<^verbatim>\<open>String(err)\<close>; for an \<^verbatim>\<open>Error\<close> object this is \<^verbatim>\<open>Error.prototype.toString\<close>.\<close>

fun js_String :: "js_error \<Rightarrow> string" where
  "js_String (ErrorObj name msg) =
     (if name = [] then msg else if msg = [] then name else name @ '': '' @ msg)"
| "js_String (ErrString s) = s"

text \<open>The test \<^verbatim>\<open>if (err)\<close>: the error when it is truthy. The empty string is falsy.\<close>

fun truthy_error :: "js_error option \<Rightarrow> js_error option" where
  "truthy_error None = None"
| "truthy_error (Some (ErrString s)) = (if s = [] then None else Some (ErrString s))"
| "truthy_error (Some (ErrorObj name msg)) = Some (ErrorObj name msg)"

definition TypeError :: "string \<Rightarrow> js_error" where
  "TypeError msg = ErrorObj ''TypeError'' msg"

definition ReferenceError :: "string \<Rightarrow> js_error" where
  "ReferenceError msg = ErrorObj ''ReferenceError'' msg"

definition quote :: string where
  "quote = [CHR 0x27]"

definition newline :: string where
  "newline = [CHR 0x0A]"

text \<open>
  The \<^verbatim>\<open>TypeError\<close> of a property read on \<^verbatim>\<open>null\<close> or \<^verbatim>\<open>undefined\<close>. The wording of
  its message depends on the engine (older ones say
  \<^verbatim>\<open>Cannot read property 'p' of null\<close>); no statement below depends on it.
\<close>

definition cannot_read :: "string \<Rightarrow> string \<Rightarrow> js_error" where
  "cannot_read prop base =
     TypeError (''Cannot read properties of '' @ base @ '' (reading '' @ quote @ prop @ quote @ '')'')"

text \<open>
  Both patterns of the source, \<^verbatim>\<open>'ipfs repo needs migration'\<close> (line 90, a string that
  \<^verbatim>\<open>match\<close> compiles to a regular expression) and \<^verbatim>\<open>/non-zero exit code 255/\<close> (line 58),
  consist of characters without a special meaning in a regular expression, so matching is
  the search for the first occurrence of the pattern's text. \<^verbatim>\<open>s.match(pat)\<close> is \<^verbatim>\<open>null\<close>
  (\<open>None\<close>) when there is none, and otherwise its element 0 is the matched text.
\<close>

fun starts_with :: "string \<Rightarrow> string \<Rightarrow> bool" where
  "starts_with [] s = True"
| "starts_with (p # ps) [] = False"
| "starts_with (p # ps) (c # cs) = (p = c \<and> starts_with ps cs)"

fun js_match :: "string \<Rightarrow> string \<Rightarrow> string option" where
  "js_match [] pat = (if pat = [] then Some [] else None)"
| "js_match (c # cs) pat = (if starts_with pat (c # cs) then Some pat else js_match cs pat)"

definition migration_pattern :: string where
  "migration_pattern = ''ipfs repo needs migration''"

definition interrupt_pattern :: string where
  "interrupt_pattern = ''non-zero exit code 255''"

text \<open>\<^verbatim>\<open>errStr.split('\n')\<close>.\<close>

fun split_lines :: "string \<Rightarrow> string list" where
  "split_lines [] = [[]]"
| "split_lines (c # cs) =
     (if c = CHR 0x0A then [] # split_lines cs
      else (case split_lines cs of
              [] \<Rightarrow> [[c]]
            | l # ls \<Rightarrow> (c # l) # ls))"

text \<open>Conversion of an option value inside a template literal (\<^verbatim>\<open>ToString\<close>).\<close>

fun join_commas :: "string list \<Rightarrow> string" where
  "join_commas [] = []"
| "join_commas [x] = x"
| "join_commas (x # y # ys) = x @ '','' @ join_commas (y # ys)"

fun js_ToString :: "jsval \<Rightarrow> string" where
  "js_ToString JUndefined = ''undefined''"
| "js_ToString JNull = ''null''"
| "js_ToString (JStr s) = s"
| "js_ToString (JArr xs) =
     join_commas (map (\<lambda>x. if x = JUndefined \<or> x = JNull then [] else js_ToString x) xs)"
| "js_ToString (JObj ps) = ''[object Object]''"

section \<open>The hosting environment\<close>

subsection \<open>Filesystem\<close>

text \<open>
  The filesystem is outside the repository: \<^verbatim>\<open>fs.existsSync\<close> and \<^verbatim>\<open>mkdirp.sync\<close> are
  library calls. It is modelled by the directories that exist and the paths at which
  nothing can be created. \<^verbatim>\<open>mkdirp.sync(p)\<close> creates every missing ancestor of
  \<open>p\<close>, outermost first, then \<open>p\<close> itself, and throws at the first directory it cannot
  create.
\<close>

record filesystem =
  dirs :: "string list"
  denied :: "string list"

definition existsSync :: "filesystem \<Rightarrow> string \<Rightarrow> bool" where
  "existsSync fs p = (p \<in> set (dirs fs))"

text \<open>The ancestors of a path: its prefixes that end before a separator.\<close>

definition ancestors :: "string \<Rightarrow> string list" where
  "ancestors p = map (\<lambda>i. take i p) (filter (\<lambda>i. p ! i = CHR ''/'') [1..<length p])"

datatype 'a completion = Normal 'a | Throw js_error 'a

fun mkdirs :: "filesystem \<Rightarrow> string list \<Rightarrow> filesystem completion" where
  "mkdirs fs [] = Normal fs"
| "mkdirs fs (d # ds) =
     (if d \<in> set (dirs fs) then mkdirs fs ds
      else if d \<in> set (denied fs)
        then Throw (ErrorObj ''Error'' (''EACCES: permission denied, mkdir '' @ quote @ d @ quote)) fs
      else mkdirs (fs\<lparr>dirs := dirs fs @ [d]\<rparr>) ds)"

definition mkdirp_sync :: "filesystem \<Rightarrow> string \<Rightarrow> filesystem completion" where
  "mkdirp_sync fs p = mkdirs fs (ancestors p @ [p])"

subsection \<open>The daemon controller and the host process\<close>

text \<open>The node handle that \<^verbatim>\<open>ipfsd.local\<close> hands to its callback.\<close>

record node =
  path :: string
  gatewayAddr :: "string option"

text \<open>
  A listener on the host \<^verbatim>\<open>process\<close>: the arrow function of lines 52 and 53, the arrow
  function of lines 56-63, or a listener that other code registered.
\<close>

datatype listener = SignalArrow | FaultArrow | Foreign nat

text \<open>Calls that leave the supervisor, in the order they are made.\<close>

datatype effect =
    Mkdirp string
  | SetLogfile string
  | IpfsdLocal jsval jsobj
  | DaemonInit jsval
  | StartDaemon jsval
  | StopDaemon
  | IpfsApi string string
  | LogDebug "string list"
  | LogError string
  | Emit string "js_error option"
  | Uncaught js_error

text \<open>
  The supervisor object (\<^verbatim>\<open>this\<close>) together with the part of the host it touches.
  \<open>this_options\<close> and \<open>this_daemon\<close> are the fields \<^verbatim>\<open>_options\<close> and \<^verbatim>\<open>_daemon\<close>;
  \<open>api_client\<close> is the host and port of the API client whose properties line 120 copies
  onto \<^verbatim>\<open>this\<close> (the client's properties are opaque and none of them is one of the
  supervisor's own fields). \<open>logfile\<close> is the file that \<^verbatim>\<open>Logger.setLogfile\<close> has named
  and \<open>log_writer\<close> tells whether the logger has opened it.
\<close>

record world =
  GatewayAddress :: "string option"
  APIAddress :: "string option"
  this_options :: "jsobj option"
  this_daemon :: "node option"
  api_client :: "(string \<times> string) option"
  listeners :: "(string \<times> listener) list"
  files :: filesystem
  logfile :: "string option"
  log_writer :: bool
  trace :: "effect list"

definition add_effect :: "effect \<Rightarrow> world \<Rightarrow> world" where
  "add_effect e w = w\<lparr>trace := trace w @ [e]\<rparr>"

text \<open>
  \<^verbatim>\<open>logger.debug\<close>. Line 13 sets the level to \<^verbatim>\<open>ERROR\<close> unless the environment variable
  \<^verbatim>\<open>LOG\<close> says otherwise; the model is of a host without \<^verbatim>\<open>LOG\<close>. At that level the
  call returns without writing a line, so it neither opens the log file nor throws.
\<close>

definition log_debug :: "string list \<Rightarrow> world \<Rightarrow> world" where
  "log_debug args w = add_effect (LogDebug args) w"

text \<open>
  \<^verbatim>\<open>logger.error\<close> writes a line. The logger opens the log file when it writes its first
  line, creating the file; this needs the directory of the file to exist and the file
  not to be refused, and throws otherwise. The constructor names the log file (line 49)
  but does not create or check its directory. Without a log file the line goes to the
  console only.
\<close>

definition log_writable :: "world \<Rightarrow> bool" where
  "log_writable w =
     (case logfile w of
        None \<Rightarrow> True
      | Some f \<Rightarrow>
          log_writer w \<or>
          (f \<notin> set (denied (files w)) \<and>
           (case rev (ancestors f) of
              [] \<Rightarrow> True
            | d # ds \<Rightarrow> existsSync (files w) d)))"

definition open_log :: "world \<Rightarrow> world" where
  "open_log w = (case logfile w of None \<Rightarrow> w | Some f \<Rightarrow> w\<lparr>log_writer := True\<rparr>)"

definition log_error :: "string \<Rightarrow> world \<Rightarrow> world completion" where
  "log_error msg w =
     (if log_writable w then Normal (add_effect (LogError msg) (open_log w))
      else Throw (ErrorObj ''Error''
                    (''ENOENT: no such file or directory, open '' @ quote @
                       (case logfile w of None \<Rightarrow> [] | Some f \<Rightarrow> f) @ quote)) w)"

text \<open>\<^verbatim>\<open>lines.forEach((e) => logger.error(e))\<close>: the first exception ends the loop.\<close>

fun log_errors :: "string list \<Rightarrow> world \<Rightarrow> world completion" where
  "log_errors [] w = Normal w"
| "log_errors (l # ls) w =
     (case log_error l w of
        Throw e w' \<Rightarrow> Throw e w'
      | Normal w' \<Rightarrow> log_errors ls w')"

text \<open>What the external collaborators answer during one run.\<close>

record externals =
  local_reply :: "js_error option \<times> node option"
  init_reply :: "js_error option"
  start_err :: "js_error option"
  start_gateway :: "string option"
  start_ipfs :: "(string \<times> string) option"

section \<open>Shutdown\<close>

text \<open>
  \<^verbatim>\<open>_handleShutdown\<close> (lines 132-143). \<^verbatim>\<open>this._daemon.stopDaemon()\<close> reads a property
  of \<^verbatim>\<open>this._daemon\<close>, which throws a \<^verbatim>\<open>TypeError\<close> when the field is \<^verbatim>\<open>null\<close>.
  \<^verbatim>\<open>process.removeAllListeners(name)\<close> removes every listener of that event.
\<close>

definition removeAllListeners :: "string \<Rightarrow> world \<Rightarrow> world" where
  "removeAllListeners name w = w\<lparr>listeners := filter (\<lambda>(ev, l). ev \<noteq> name) (listeners w)\<rparr>"

definition handleShutdown :: "world \<Rightarrow> world completion" where
  "handleShutdown w =
     (let w1 = log_debug [''Shutting down...''] w in
      case this_daemon w1 of
        None \<Rightarrow> Throw (cannot_read ''stopDaemon'' ''null'') w1
      | Some d \<Rightarrow>
          (let w2 = add_effect StopDaemon w1;
               w3 = w2\<lparr>GatewayAddress := None, APIAddress := None,
                        this_options := None, this_daemon := None\<rparr>;
               w4 = removeAllListeners ''SIGINT'' w3;
               w5 = removeAllListeners ''SIGTERM'' w4;
               w6 = removeAllListeners ''uncaughtException'' w5
           in Normal (log_debug [''IPFS daemon finished''] w6)))"

text \<open>\<^verbatim>\<open>stop()\<close> (lines 72-74).\<close>

definition stop :: "world \<Rightarrow> world completion" where
  "stop w = handleShutdown w"

section \<open>Listeners on the host process\<close>

text \<open>
  Lines 52 and 53: \<^verbatim>\<open>() => this._handleShutdown\<close>. The body is a property read; the
  function it names is returned to the emitter, not called.
\<close>

definition signal_arrow :: "world \<Rightarrow> world completion" where
  "signal_arrow w = Normal w"

text \<open>Lines 56-63. An exception of \<^verbatim>\<open>logger.error\<close> leaves the listener.\<close>

definition fault_arrow :: "js_error \<Rightarrow> world \<Rightarrow> world completion" where
  "fault_arrow error w =
     (case js_match (js_String error) interrupt_pattern of
        Some m \<Rightarrow> handleShutdown w
      | None \<Rightarrow> log_error (js_String error) w)"

definition register_listeners :: "world \<Rightarrow> world" where
  "register_listeners w =
     w\<lparr>listeners := listeners w @
        [(''SIGINT'', SignalArrow), (''SIGTERM'', SignalArrow), (''uncaughtException'', FaultArrow)]\<rparr>"

text \<open>
  Delivery of a host event. The emitter calls the listeners registered for the event, in
  registration order, from a copy of the list taken before the first call; an exception
  in a listener ends the delivery and, nothing being left to catch it, the host. A
  listener of other code does not touch the supervisor.
  With no listener at all the host takes its default action: it terminates on a signal
  and dies of an uncaught exception.
\<close>

datatype host_event = Signal string | UncaughtException js_error

fun event_name :: "host_event \<Rightarrow> string" where
  "event_name (Signal name) = name"
| "event_name (UncaughtException e) = ''uncaughtException''"

fun run_listener :: "listener \<Rightarrow> host_event \<Rightarrow> world \<Rightarrow> world completion" where
  "run_listener SignalArrow ev w = signal_arrow w"
| "run_listener FaultArrow (UncaughtException e) w = fault_arrow e w"
| "run_listener FaultArrow (Signal name) w = fault_arrow (ErrString name) w"
  \<comment> \<open>a signal listener is called with the signal's name; line 56 registers this
     arrow for \<^verbatim>\<open>uncaughtException\<close> only\<close>
| "run_listener (Foreign n) ev w = Normal w"

fun run_listeners :: "listener list \<Rightarrow> host_event \<Rightarrow> world \<Rightarrow> world completion" where
  "run_listeners [] ev w = Normal w"
| "run_listeners (l # ls) ev w =
     (case run_listener l ev w of
        Throw e w' \<Rightarrow> Throw e w'
      | Normal w' \<Rightarrow> run_listeners ls ev w')"

datatype host_outcome = Continues world | Terminated world | Crashed js_error world

definition deliver :: "host_event \<Rightarrow> world \<Rightarrow> host_outcome" where
  "deliver ev w =
     (case map snd (filter (\<lambda>(name, l). name = event_name ev) (listeners w)) of
        [] \<Rightarrow> (case ev of Signal name \<Rightarrow> Terminated w | UncaughtException e \<Rightarrow> Crashed e w)
      | l # ls \<Rightarrow>
          (case run_listeners (l # ls) ev w of
             Normal w' \<Rightarrow> Continues w'
           | Throw e w' \<Rightarrow> Crashed e w'))"

section \<open>Construction and the startup sequence\<close>

text \<open>
  Lines 44-46: \<^verbatim>\<open>if (!fs.existsSync(dir)) mkdirp.sync(dir)\<close>. An exception of
  \<^verbatim>\<open>mkdirp.sync\<close> leaves the constructor.
\<close>

definition ensure_data_dir :: "string \<Rightarrow> world \<Rightarrow> world completion" where
  "ensure_data_dir dir w =
     (if existsSync (files w) dir then Normal w
      else (case mkdirp_sync (files w) dir of
              Normal fs' \<Rightarrow> Normal (add_effect (Mkdirp dir) (w\<lparr>files := fs'\<rparr>))
            | Throw e fs' \<Rightarrow> Throw e (add_effect (Mkdirp dir) (w\<lparr>files := fs'\<rparr>))))"

text \<open>
  \<^verbatim>\<open>path.join(dir, '/ipfs-daemon.log')\<close> for the log file of line 49 (Node also collapses
  repeated separators, which nothing below depends on).
\<close>

definition path_join :: "string \<Rightarrow> string \<Rightarrow> string" where
  "path_join a b = a @ b"

text \<open>
  The synchronous part of the constructor, lines 32-63, up to the call of
  \<^verbatim>\<open>this._initDaemon()\<close>. The path functions throw a \<^verbatim>\<open>TypeError\<close> on an argument
  that is not a string.
\<close>

definition constructor_sync :: "string option \<Rightarrow> jsobj option \<Rightarrow> world \<Rightarrow> world completion" where
  "constructor_sync env_IPFS_PATH options w =
     (let opts = merge_options env_IPFS_PATH options;
          w1 = w\<lparr>GatewayAddress := None, APIAddress := None,
                  this_options := Some opts, this_daemon := None\<rparr>
      in case obj_get opts ''IpfsDataDir'' of
           JStr dir \<Rightarrow>
             (case ensure_data_dir dir w1 of
                Throw e w2 \<Rightarrow> Throw e w2
              | Normal w2 \<Rightarrow>
                  (case obj_get opts ''LogDirectory'' of
                     JStr logdir \<Rightarrow>
                       Normal (register_listeners
                         ((add_effect (SetLogfile (path_join logdir ''/ipfs-daemon.log'')) w2)
                            \<lparr>logfile := Some (path_join logdir ''/ipfs-daemon.log'')\<rparr>))
                   | _ \<Rightarrow> Throw (TypeError ''Path must be a string'') w2))
         | _ \<Rightarrow> Throw (TypeError ''Path must be a string'') w1)"

text \<open>
  A promise is pending until its first \<^verbatim>\<open>resolve\<close> or \<^verbatim>\<open>reject\<close>; later calls of
  either change nothing.
\<close>

datatype promise = Pending | Fulfilled | Rejected js_error

fun settle :: "promise \<Rightarrow> promise \<Rightarrow> promise" where
  "settle Pending q = q"
| "settle p q = p"

text \<open>
  The names that the callback of \<^verbatim>\<open>this._daemon.init\<close> (lines 87-104) can read: its
  own block and parameters, the parameters of the enclosing callback and of the promise
  executor, the bindings of the module (lines 3-30) and those of Node's module wrapper.
  \<^verbatim>\<open>_initDaemon\<close> declares no variable of its own, the \<^verbatim>\<open>opts\<close> of line 37 is local to
  the constructor, and Node's global object has no property of that name. A read of a
  name that is bound nowhere throws a \<^verbatim>\<open>ReferenceError\<close>.
\<close>

definition initDaemon_bindings :: "string list" where
  "initDaemon_bindings =
     [''migrationNeeded'', ''errStr'', ''err'', ''node'', ''resolve'', ''reject'',
      ''fs'', ''mkdirp'', ''path'', ''ipfsd'', ''IpfsApi'', ''EventEmitter'', ''Logger'',
      ''logger'', ''defaultOptions'', ''IpfsDaemon'',
      ''exports'', ''require'', ''module'', ''__filename'', ''__dirname'']"

text \<open>
  The callback of \<^verbatim>\<open>this._daemon.init\<close>, lines 87-104. Line 94 reads
  \<^verbatim>\<open>opts.IpfsDataDir\<close>; were \<^verbatim>\<open>opts\<close> readable there, it would be the options object.
  An exception in the callback goes back into the library that called it and
  is recorded as \<open>Uncaught\<close>; the promise is left as it was. Nothing there catches it,
  so the host then sees it as an uncaught exception (\<open>deliver\<close> below says what the
  host does with one).
\<close>

definition init_callback :: "js_error option \<Rightarrow> jsobj \<Rightarrow> promise \<Rightarrow> world \<Rightarrow> promise \<times> world" where
  "init_callback err opts p w =
     (case truthy_error err of
        Some e \<Rightarrow>
          (case js_match (js_String e) migration_pattern of
             Some m \<Rightarrow>
               (if ''opts'' \<in> set initDaemon_bindings then
                  (let errStr =
                         ''Error initializing IPFS daemon: '' @ quote @ m @ quote @ newline @
                         ''Tried to init IPFS repo at '' @ quote @
                           js_ToString (obj_get opts ''IpfsDataDir'') @ quote @
                           '', but failed.'' @ newline @
                         ''Use $IPFS_PATH to specify another repo path, eg. '' @ quote @
                           ''export IPFS_PATH=/tmp/orbit-floodsub'' @ quote @ ''.''
                   in case log_errors (split_lines errStr) w of
                        Throw e' w' \<Rightarrow> (p, add_effect (Uncaught e') w')
                      | Normal w' \<Rightarrow> (settle p (Rejected (ErrString errStr)), w'))
                else (p, add_effect (Uncaught (ReferenceError ''opts is not defined'')) w))
           | None \<Rightarrow> (p, w))
      | None \<Rightarrow> (settle p Fulfilled, w))"

text \<open>
  The callback of \<^verbatim>\<open>ipfsd.local\<close>, lines 78-105. Line 80 rejects and goes on; line 85
  reads \<^verbatim>\<open>node.path\<close>.
\<close>

definition local_callback :: "externals \<Rightarrow> jsobj \<Rightarrow> world \<Rightarrow> promise \<times> world" where
  "local_callback ext opts w =
     (let p = (case truthy_error (fst (local_reply ext)) of
                 Some e \<Rightarrow> Rejected e
               | None \<Rightarrow> Pending);
          w1 = w\<lparr>this_daemon := snd (local_reply ext)\<rparr>;
          w2 = log_debug [''Initializing IPFS daemon''] w1
      in case snd (local_reply ext) of
           None \<Rightarrow>
             (p, add_effect (Uncaught (cannot_read ''path'' ''undefined'')) w2)
         | Some n \<Rightarrow>
             (let w3 = log_debug [''Using IPFS repo at '' @ quote @ path n @ quote] w2;
                  w4 = add_effect (DaemonInit (obj_get opts ''IpfsDataDir'')) w3
              in init_callback (init_reply ext) opts p w4))"

text \<open>
  \<^verbatim>\<open>_initDaemon\<close>, lines 76-107. An exception inside the executor itself rejects the
  promise.
\<close>

definition initDaemon :: "externals \<Rightarrow> world \<Rightarrow> promise \<times> world" where
  "initDaemon ext w =
     (case this_options w of
        None \<Rightarrow>
          (Rejected (cannot_read ''IpfsDataDir'' ''null''), w)
      | Some opts \<Rightarrow>
          local_callback ext opts (add_effect (IpfsdLocal (obj_get opts ''IpfsDataDir'') opts) w))"

text \<open>
  The callback of \<^verbatim>\<open>this._daemon.startDaemon\<close>, lines 112-127. The controller has
  recorded the gateway address it saw, if any, on the node; a non-empty string is truthy.
\<close>

definition start_callback :: "externals \<Rightarrow> node \<Rightarrow> world \<Rightarrow> promise \<times> world" where
  "start_callback ext d w =
     (case truthy_error (start_err ext) of
        Some e \<Rightarrow> (Rejected e, w)
      | None \<Rightarrow>
          (let w1 = w\<lparr>this_daemon := Some (d\<lparr>gatewayAddr := start_gateway ext\<rparr>)\<rparr>;
               w2 = (case start_gateway ext of
                       None \<Rightarrow> w1
                     | Some g \<Rightarrow>
                         if g = [] then w1 else w1\<lparr>GatewayAddress := Some (g @ ''/ipfs/'')\<rparr>)
           in case start_ipfs ext of
                None \<Rightarrow>
                  (Pending, add_effect (Uncaught (cannot_read ''apiHost'' ''undefined'')) w2)
              | Some (apiHost, apiPort) \<Rightarrow>
                  (let w3 = (add_effect (IpfsApi apiHost apiPort) w2)
                               \<lparr>api_client := Some (apiHost, apiPort)\<rparr>;
                       w4 = w3\<lparr>APIAddress := Some (apiHost @ '':'' @ apiPort)\<rparr>;
                       w5 = log_debug [''IPFS daemon started at'', apiHost @ '':'' @ apiPort] w4;
                       w6 = log_debug [''Gateway listening at'',
                              (case GatewayAddress w5 of None \<Rightarrow> ''null'' | Some a \<Rightarrow> a)] w5
                   in (Fulfilled, w6))))"

text \<open>\<^verbatim>\<open>_startDaemon\<close>, lines 109-129.\<close>

definition startDaemon :: "externals \<Rightarrow> world \<Rightarrow> promise \<times> world" where
  "startDaemon ext w =
     (let w1 = log_debug [''Starting IPFS daemon''] w in
      case this_daemon w1 of
        None \<Rightarrow>
          (Rejected (cannot_read ''startDaemon'' ''null''), w1)
      | Some d \<Rightarrow>
          (case this_options w1 of
             None \<Rightarrow>
               (Rejected (cannot_read ''Flags'' ''null''), w1)
           | Some opts \<Rightarrow>
               start_callback ext d (add_effect (StartDaemon (obj_get opts ''Flags'')) w1)))"

text \<open>
  The chain of lines 66-69, run until nothing more can happen, every library callback
  being called once: \<^verbatim>\<open>then\<close> runs its function when the promise before it is
  fulfilled, \<^verbatim>\<open>catch\<close> when one is rejected, and a promise that stays pending runs
  neither. The trace lists an emitted event after the effects of the callbacks
  of the same phase.
\<close>

definition emit :: "string \<Rightarrow> js_error option \<Rightarrow> world \<Rightarrow> world" where
  "emit name payload w = add_effect (Emit name payload) w"

definition startup :: "externals \<Rightarrow> world \<Rightarrow> world" where
  "startup ext w =
     (case initDaemon ext w of
        (Rejected e, w1) \<Rightarrow> emit ''error'' (Some e) w1
      | (Pending, w1) \<Rightarrow> w1
      | (Fulfilled, w1) \<Rightarrow>
          (case startDaemon ext w1 of
             (Rejected e, w2) \<Rightarrow> emit ''error'' (Some e) w2
           | (Pending, w2) \<Rightarrow> w2
           | (Fulfilled, w2) \<Rightarrow> emit ''ready'' None w2))"

text \<open>\<^verbatim>\<open>new IpfsDaemon(options)\<close>.\<close>

definition construct ::
  "string option \<Rightarrow> jsobj option \<Rightarrow> externals \<Rightarrow> world \<Rightarrow> world completion" where
  "construct env_IPFS_PATH options ext w =
     (case constructor_sync env_IPFS_PATH options w of
        Throw e w1 \<Rightarrow> Throw e w1
      | Normal w1 \<Rightarrow> Normal (startup ext w1))"

text \<open>A host in which nothing has happened yet.\<close>

definition fresh_world :: "filesystem \<Rightarrow> (string \<times> listener) list \<Rightarrow> world" where
  "fresh_world fs ls =
     \<lparr>GatewayAddress = None, APIAddress = None, this_options = None, this_daemon = None,
      api_client = None, listeners = ls, files = fs, logfile = None, log_writer = False,
      trace = []\<rparr>"

section \<open>Observations and example runs\<close>

text \<open>
  The supervisor keeps no state variable; it has reached Ready when the controller
  reference, the configuration and the API address are all recorded.
\<close>

definition is_ready :: "world \<Rightarrow> bool" where
  "is_ready w = (this_daemon w \<noteq> None \<and> this_options w \<noteq> None \<and> APIAddress w \<noteq> None)"

text \<open>Whether a call returned, and the state in which it ended.\<close>

fun returns :: "'a completion \<Rightarrow> bool" where
  "returns (Normal x) = True"
| "returns (Throw e x) = False"

fun world_of :: "'a completion \<Rightarrow> 'a" where
  "world_of (Normal x) = x"
| "world_of (Throw e x) = x"

text \<open>\<^verbatim>\<open>daemon.stop(); daemon.stop()\<close>: the second call runs if the first returned.\<close>

definition stop_twice :: "world \<Rightarrow> world completion" where
  "stop_twice w = (case stop w of Normal w1 \<Rightarrow> stop w1 | Throw e w1 \<Rightarrow> Throw e w1)"

text \<open>The three host events whose listeners \<^verbatim>\<open>_handleShutdown\<close> removes.\<close>

definition shutdown_events :: "string set" where
  "shutdown_events = {''SIGINT'', ''SIGTERM'', ''uncaughtException''}"

text \<open>The events of one name that the supervisor has emitted.\<close>

definition emitted :: "string \<Rightarrow> world \<Rightarrow> effect list" where
  "emitted name w = filter (\<lambda>e. case e of Emit n payload \<Rightarrow> n = name | _ \<Rightarrow> False) (trace w)"

text \<open>
  A run of \<^verbatim>\<open>new IpfsDaemon()\<close> in which every phase succeeds: the working directory
  and \<^verbatim>\<open>/tmp\<close> exist, the controller reports a gateway and the API at
  \<^verbatim>\<open>127.0.0.1:5001\<close>.
\<close>

definition example_fs :: filesystem where
  "example_fs = \<lparr>dirs = [''.'', ''/tmp''], denied = []\<rparr>"

definition example_ext :: externals where
  "example_ext =
     \<lparr>local_reply = (None, Some \<lparr>path = ''./ipfs'', gatewayAddr = None\<rparr>),
      init_reply = None,
      start_err = None,
      start_gateway = Some ''/ip4/0.0.0.0/tcp/8080'',
      start_ipfs = Some (''127.0.0.1'', ''5001'')\<rparr>"

definition example_ready :: world where
  "example_ready = world_of (construct None None example_ext (fresh_world example_fs []))"

text \<open>The same run in a host where other code listens to \<^verbatim>\<open>SIGINT\<close> and \<^verbatim>\<open>exit\<close>.\<close>

definition example_shared :: world where
  "example_shared =
     world_of (construct None None example_ext
       (fresh_world example_fs [(''SIGINT'', Foreign 0), (''exit'', Foreign 1)]))"

text \<open>
  The same run with a log directory that does not exist:
  \<^verbatim>\<open>new IpfsDaemon({LogDirectory: '/nonexistent/nologs'})\<close>.
\<close>

definition example_nolog :: world where
  "example_nolog =
     world_of (construct None (Some [(''LogDirectory'', JStr ''/nonexistent/nologs'')])
       example_ext (fresh_world example_fs []))"

text \<open>Whether the host is still running after a delivery, and the state it is left in.\<close>

fun continues :: "host_outcome \<Rightarrow> bool" where
  "continues (Continues w) = True"
| "continues (Terminated w) = False"
| "continues (Crashed e w) = False"

fun host_world :: "host_outcome \<Rightarrow> world" where
  "host_world (Continues w) = w"
| "host_world (Terminated w) = w"
| "host_world (Crashed e w) = w"

text \<open>
  Two runs in which the initialisation of the repository fails: with an unrelated
  message, and with the message of a repository that needs migration.
\<close>

definition example_init_failure :: externals where
  "example_init_failure =
     example_ext\<lparr>init_reply := Some (ErrorObj ''Error'' ''mkdir ./ipfs/blocks: permission denied'')\<rparr>"

definition example_migration :: externals where
  "example_migration =
     example_ext\<lparr>init_reply := Some (ErrorObj ''Error'' ''ipfs repo needs migration'')\<rparr>"

text \<open>The state in which the run with the migration failure ends.\<close>

definition example_migrated :: world where
  "example_migrated =
     world_of (construct None None example_migration (fresh_world example_fs []))"

section \<open>Properties of the option merge\<close>

lemma map_of_obj_set: "map_of (obj_set obj k v) = (map_of obj)(k \<mapsto> v)"
  by (induction obj) (auto simp: fun_eq_iff)

lemma map_of_fold_obj_set:
  "distinct (map fst src) \<Longrightarrow>
   map_of (fold (\<lambda>(k, v) t. obj_set t k v) src target) = map_of target ++ map_of src"
proof (induction src arbitrary: target)
  case Nil
  then show ?case by simp
next
  case (Cons p src)
  obtain k v where p: "p = (k, v)" by (cases p)
  from Cons.prems have notin: "k \<notin> fst ` set src" and d: "distinct (map fst src)"
    by (auto simp: p)
  have none: "map_of src k = None"
    using notin by (simp add: map_of_eq_None_iff)
  have swap: "(map_of target)(k \<mapsto> v) ++ map_of src = map_of target ++ (map_of src)(k \<mapsto> v)"
    using none by (auto simp: fun_eq_iff map_add_def split: option.splits)
  have "map_of (fold (\<lambda>(k, v) t. obj_set t k v) (p # src) target) =
        map_of (fold (\<lambda>(k, v) t. obj_set t k v) src (obj_set target k v))"
    by (simp add: p)
  also have "\<dots> = map_of (obj_set target k v) ++ map_of src"
    by (rule Cons.IH [OF d])
  also have "\<dots> = (map_of target)(k \<mapsto> v) ++ map_of src"
    by (simp only: map_of_obj_set)
  also have "\<dots> = map_of target ++ (map_of src)(k \<mapsto> v)"
    by (rule swap)
  also have "\<dots> = map_of target ++ map_of (p # src)"
    by (simp add: p)
  finally show ?case .
qed

lemma map_of_object_assign:
  "distinct (map fst src) \<Longrightarrow>
   map_of (object_assign target (Some src)) = map_of target ++ map_of src"
  by (simp add: object_assign_def map_of_fold_obj_set)

lemma distinct_defaultOptions: "distinct (map fst (defaultOptions e))"
  by (simp add: defaultOptions_def)

lemma copy_defaultOptions:
  "map_of (object_assign [] (Some (defaultOptions e))) = map_of (defaultOptions e)"
  by (simp add: map_of_object_assign distinct_defaultOptions)

lemma merge_options_undefined: "merge_options e None = defaultOptions e"
  by (simp add: merge_options_def object_assign_def defaultOptions_def)

lemma map_of_merge_options:
  "distinct (map fst overlay) \<Longrightarrow>
   map_of (merge_options e (Some overlay)) = map_of (defaultOptions e) ++ map_of overlay"
  by (simp add: merge_options_def Let_def map_of_object_assign copy_defaultOptions)

text \<open>
  Claim C2. For every caller-supplied overlay (a well-formed object: distinct property
  names), each property of the effective configuration is the overlay's value where the
  overlay has that property, and the default's otherwise; values are taken whole, nested
  objects included. Without an overlay the configuration is the defaults. The overlay
  \<^verbatim>\<open>{IpfsDataDir: "/tmp/x"}\<close> gives \<^verbatim>\<open>IpfsDataDir == "/tmp/x"\<close> and keeps
  \<^verbatim>\<open>Addresses.API == "/ip4/127.0.0.1/tcp/5001"\<close>; an overlay with an \<^verbatim>\<open>Addresses\<close> object
  of one property leaves exactly that object, with no default \<^verbatim>\<open>Swarm\<close> or \<^verbatim>\<open>Gateway\<close>
  merged into it.
\<close>

theorem merge_options_shallow_overlay:
  "(distinct (map fst overlay) \<longrightarrow>
      map_of (merge_options e (Some overlay)) k =
        (case map_of overlay k of
           Some v \<Rightarrow> Some v
         | None \<Rightarrow> map_of (defaultOptions e) k))
   \<and> merge_options e None = defaultOptions e
   \<and> obj_get (merge_options e (Some [(''IpfsDataDir'', JStr ''/tmp/x'')])) ''IpfsDataDir''
       = JStr ''/tmp/x''
   \<and> (case obj_get (merge_options e (Some [(''IpfsDataDir'', JStr ''/tmp/x'')])) ''Addresses'' of
         JObj addresses \<Rightarrow> obj_get addresses ''API'' = JStr ''/ip4/127.0.0.1/tcp/5001''
       | _ \<Rightarrow> False)
   \<and> obj_get (merge_options e (Some [(''Addresses'', JObj [(''API'', JStr ''/ip4/127.0.0.1/tcp/0'')])]))
         ''Addresses'' = JObj [(''API'', JStr ''/ip4/127.0.0.1/tcp/0'')]"
proof (intro conjI impI)
  assume "distinct (map fst overlay)"
  then show "map_of (merge_options e (Some overlay)) k =
        (case map_of overlay k of Some v \<Rightarrow> Some v | None \<Rightarrow> map_of (defaultOptions e) k)"
    by (simp add: map_of_merge_options map_add_def split: option.splits)
next
  show "merge_options e None = defaultOptions e"
    by (rule merge_options_undefined)
next
  show "obj_get (merge_options e (Some [(''IpfsDataDir'', JStr ''/tmp/x'')])) ''IpfsDataDir''
       = JStr ''/tmp/x''"
    by (simp add: obj_get_def map_of_merge_options)
next
  show "case obj_get (merge_options e (Some [(''IpfsDataDir'', JStr ''/tmp/x'')])) ''Addresses'' of
         JObj addresses \<Rightarrow> obj_get addresses ''API'' = JStr ''/ip4/127.0.0.1/tcp/5001''
       | _ \<Rightarrow> False"
    by (simp add: obj_get_def map_of_merge_options defaultOptions_def)
next
  show "obj_get (merge_options e (Some [(''Addresses'', JObj [(''API'', JStr ''/ip4/127.0.0.1/tcp/0'')])]))
         ''Addresses'' = JObj [(''API'', JStr ''/ip4/127.0.0.1/tcp/0'')]"
    by (simp add: obj_get_def map_of_merge_options)
qed

theorem merge_options_shallow_overlay_witness:
  "distinct (map fst [(''Flags'', JArr [])]) \<and>
   map_of (merge_options None (Some [(''Flags'', JArr [])])) ''Flags'' = Some (JArr []) \<and>
   map_of (merge_options None (Some [(''Flags'', JArr [])])) ''LogDirectory'' = Some (JStr ''/tmp'')"
  using merge_options_shallow_overlay [of "[(''Flags'', JArr [])]" None "''Flags''"]
        merge_options_shallow_overlay [of "[(''Flags'', JArr [])]" None "''LogDirectory''"]
  by (simp add: defaultOptions_def)

section \<open>Shutdown and host signals\<close>

lemma handleShutdown_Some:
  "this_daemon w = Some d \<Longrightarrow>
   handleShutdown w =
     Normal (w\<lparr>GatewayAddress := None, APIAddress := None, this_options := None,
               this_daemon := None,
               listeners := filter (\<lambda>(ev, l). ev \<notin> shutdown_events) (listeners w),
               trace := trace w @ [LogDebug [''Shutting down...''], StopDaemon,
                                   LogDebug [''IPFS daemon finished'']]\<rparr>)"
proof -
  have f: "filter (\<lambda>(ev, l). ev \<noteq> ''uncaughtException'')
             (filter (\<lambda>(ev, l). ev \<noteq> ''SIGTERM'')
               (filter (\<lambda>(ev, l). ev \<noteq> ''SIGINT'') ls)) =
           filter (\<lambda>(ev, l). ev \<notin> shutdown_events) ls" for ls :: "(string \<times> listener) list"
    by (induction ls) (auto simp: shutdown_events_def)
  assume "this_daemon w = Some d"
  then show ?thesis
    by (simp add: handleShutdown_def Let_def log_debug_def add_effect_def
        removeAllListeners_def f del: filter_filter)
qed


lemma example_ready_is_ready: "is_ready example_ready"
  by code_simp

text \<open>
  Claim C5 on the example run: the supervisor is Ready and the first \<^verbatim>\<open>stop()\<close> returns,
  having asked the daemon to stop; the second \<^verbatim>\<open>stop()\<close> in succession does not return
  but throws at line 134, where it reads \<^verbatim>\<open>this._daemon\<close>, which line 138 of the first
  call has set to \<^verbatim>\<open>null\<close>.
\<close>

theorem stop_twice_counterexample:
  "is_ready example_ready \<and> returns (stop example_ready) \<and> \<not> returns (stop_twice example_ready)"
  by code_simp

text \<open>
  Claim C9 as stated fails: in a host where other code listens to \<^verbatim>\<open>SIGINT\<close>, that
  listener is gone after \<^verbatim>\<open>stop()\<close>.
\<close>

theorem shutdown_removes_foreign_counterexample:
  "is_ready example_shared \<and> returns (stop example_shared)
   \<and> (''SIGINT'', Foreign 0) \<in> set (listeners example_shared)
   \<and> (''SIGINT'', Foreign 0) \<notin> set (listeners (world_of (stop example_shared)))"
  by code_simp

text \<open>
  Claim C9, amended. A shutdown of a Ready supervisor, by \<^verbatim>\<open>stop()\<close> or by any other
  caller of \<^verbatim>\<open>_handleShutdown\<close>, returns and removes every listener of \<^verbatim>\<open>SIGINT\<close>,
  \<^verbatim>\<open>SIGTERM\<close> and \<^verbatim>\<open>uncaughtException\<close> from the host, whoever registered it, and
  leaves the listeners of every other event in place. An instance constructed afterwards
  therefore ends with exactly its own three listeners on these events.
\<close>

theorem shutdown_removes_all_listeners:
  assumes "is_ready w"
  shows "stop w = handleShutdown w
       \<and> returns (handleShutdown w)
       \<and> listeners (world_of (handleShutdown w)) =
           filter (\<lambda>(ev, l). ev \<notin> shutdown_events) (listeners w)
       \<and> filter (\<lambda>(ev, l). ev \<in> shutdown_events)
           (listeners (register_listeners (world_of (handleShutdown w)))) =
           [(''SIGINT'', SignalArrow), (''SIGTERM'', SignalArrow),
            (''uncaughtException'', FaultArrow)]"
proof -
  from assms obtain d where d: "this_daemon w = Some d"
    by (auto simp: is_ready_def)
  have none: "filter (\<lambda>(ev, l). ev \<in> shutdown_events)
                (filter (\<lambda>(ev, l). ev \<notin> shutdown_events) ls) = []"
    for ls :: "(string \<times> listener) list"
    by (induction ls) auto
  have "filter (\<lambda>(ev, l). ev \<in> shutdown_events)
           (listeners (register_listeners (world_of (handleShutdown w)))) =
           [(''SIGINT'', SignalArrow), (''SIGTERM'', SignalArrow),
            (''uncaughtException'', FaultArrow)]"
    by (simp add: handleShutdown_Some [OF d] register_listeners_def none del: filter_filter)
       (simp add: shutdown_events_def)
  then show ?thesis
    by (simp add: stop_def handleShutdown_Some [OF d])
qed

theorem shutdown_removes_all_listeners_witness:
  "is_ready example_shared \<and>
   listeners (world_of (handleShutdown example_shared)) = [(''exit'', Foreign 1)]"
proof -
  have l: "listeners example_shared =
        [(''SIGINT'', Foreign 0), (''exit'', Foreign 1), (''SIGINT'', SignalArrow),
         (''SIGTERM'', SignalArrow), (''uncaughtException'', FaultArrow)]"
    by code_simp
  have r: "is_ready example_shared" by code_simp
  show ?thesis
    using shutdown_removes_all_listeners [OF r] r by (simp add: l shutdown_events_def)
qed

text \<open>
  Claim C6 on the example run: the delivery of \<^verbatim>\<open>SIGINT\<close> or \<^verbatim>\<open>SIGTERM\<close> to the Ready
  supervisor leaves everything as it was (the host goes on, the daemon is not asked to
  stop, nothing is cleared), whereas \<^verbatim>\<open>stop()\<close> asks the daemon to stop and changes
  the state.
\<close>

theorem signal_does_not_shut_down:
  "is_ready example_ready
   \<and> deliver (Signal ''SIGINT'') example_ready = Continues example_ready
   \<and> deliver (Signal ''SIGTERM'') example_ready = Continues example_ready
   \<and> returns (stop example_ready)
   \<and> world_of (stop example_ready) \<noteq> example_ready
   \<and> StopDaemon \<notin> set (trace example_ready)
   \<and> StopDaemon \<in> set (trace (world_of (stop example_ready)))"
  by code_simp


section \<open>Uncaught faults\<close>



lemma js_match_Some: "js_match s pat = Some m \<Longrightarrow> m = pat"
  by (induction s) (auto split: if_splits)

lemma log_error_writable:
  "log_writable w \<Longrightarrow>
   log_error m w = Normal ((open_log w)\<lparr>trace := trace w @ [LogError m]\<rparr>)"
  by (simp add: log_error_def add_effect_def open_log_def split: option.splits)

lemma log_writable_after:
  "log_writable w \<Longrightarrow> log_writable ((open_log w)\<lparr>trace := t\<rparr>)"
  by (simp add: log_writable_def open_log_def split: option.splits)

lemma open_log_after:
  "open_log ((open_log w)\<lparr>trace := t\<rparr>) = (open_log w)\<lparr>trace := t\<rparr>"
  by (simp add: open_log_def split: option.splits)



lemma run_listeners_unmatched:
  "js_match (js_String e) interrupt_pattern = None \<Longrightarrow> log_writable w \<Longrightarrow>
   run_listeners ls (UncaughtException e) w =
     Normal ((if FaultArrow \<in> set ls then open_log w else w)
               \<lparr>trace := trace w @ replicate (count_list ls FaultArrow) (LogError (js_String e))\<rparr>)"
proof (induction ls arbitrary: w)
  case Nil
  then show ?case by simp
next
  case (Cons l ls)
  show ?case
  proof (cases l)
    case SignalArrow
    then show ?thesis
      using Cons.IH [OF Cons.prems] by (simp add: signal_arrow_def)
  next
    case FaultArrow
    let ?w' = "(open_log w)\<lparr>trace := trace w @ [LogError (js_String e)]\<rparr>"
    have step: "fault_arrow e w = Normal ?w'"
      by (simp add: fault_arrow_def Cons.prems log_error_writable)
    have "run_listeners ls (UncaughtException e) ?w' =
        Normal ((if FaultArrow \<in> set ls then open_log ?w' else ?w')
               \<lparr>trace := trace ?w' @ replicate (count_list ls FaultArrow) (LogError (js_String e))\<rparr>)"
      by (rule Cons.IH [OF Cons.prems(1) log_writable_after [OF Cons.prems(2)]])
    then have "run_listeners ls (UncaughtException e) ?w' =
        Normal ((open_log w)
               \<lparr>trace := trace w @ LogError (js_String e) #
                  replicate (count_list ls FaultArrow) (LogError (js_String e))\<rparr>)"
      by (simp add: open_log_after)
    then show ?thesis
      by (simp add: step FaultArrow)
  next
    case (Foreign n)
    then show ?thesis
      using Cons.IH [OF Cons.prems] by simp
  qed
qed

text \<open>
  Claim C7 as stated fails: with a log directory that does not exist the supervisor
  reaches Ready, and an uncaught fault that does not match the interrupt pattern then
  ends the host.
\<close>

theorem uncaught_fault_crash_counterexample:
  "is_ready example_nolog
   \<and> (''uncaughtException'', FaultArrow) \<in> set (listeners example_nolog)
   \<and> js_match (js_String (ErrorObj ''TypeError'' ''x is not a function'')) interrupt_pattern = None
   \<and> \<not> continues (deliver (UncaughtException (ErrorObj ''TypeError'' ''x is not a function''))
                     example_nolog)"
  by code_simp

text \<open>
  Claim C7, amended. When the string form of an uncaught fault matches the interrupt
  pattern, the listener does what \<^verbatim>\<open>stop()\<close> does. When it does not match and the log
  file can be written (no file is named, or it is open already, or its directory exists
  and the file is not refused), the listener returns and has only logged the fault,
  opening the log file if need be: a Ready supervisor is still Ready, and, the listener
  being registered, the delivery of the fault ends with the host running and with
  nothing but one log entry for each registered copy of the listener.
\<close>

theorem uncaught_fault_handling:
  "(js_match (js_String e) interrupt_pattern \<noteq> None \<longrightarrow> fault_arrow e w = stop w)
   \<and> (js_match (js_String e) interrupt_pattern = None \<and> log_writable w \<longrightarrow>
        fault_arrow e w = Normal ((open_log w)\<lparr>trace := trace w @ [LogError (js_String e)]\<rparr>)
        \<and> (is_ready w \<longrightarrow> is_ready (world_of (fault_arrow e w)))
        \<and> ((''uncaughtException'', FaultArrow) \<in> set (listeners w) \<longrightarrow>
             deliver (UncaughtException e) w =
               Continues ((open_log w)\<lparr>trace := trace w @
                 replicate
                   (count_list (map snd (filter (\<lambda>(name, l). name = ''uncaughtException'')
                                           (listeners w))) FaultArrow)
                   (LogError (js_String e))\<rparr>)))"
proof (intro conjI impI)
  assume "js_match (js_String e) interrupt_pattern \<noteq> None"
  then show "fault_arrow e w = stop w"
    by (auto simp: fault_arrow_def stop_def)
next
  assume "js_match (js_String e) interrupt_pattern = None \<and> log_writable w"
  then have n: "js_match (js_String e) interrupt_pattern = None" and lw: "log_writable w"
    by simp_all
  show a: "fault_arrow e w = Normal ((open_log w)\<lparr>trace := trace w @ [LogError (js_String e)]\<rparr>)"
    by (simp add: fault_arrow_def n log_error_writable [OF lw])
  {
    assume "is_ready w"
    then show "is_ready (world_of (fault_arrow e w))"
      by (simp add: a is_ready_def open_log_def split: option.splits)
  }
  {
    assume reg: "(''uncaughtException'', FaultArrow) \<in> set (listeners w)"
    define ls where
      "ls = map snd (filter (\<lambda>(name, l). name = ''uncaughtException'') (listeners w))"
    from reg have mem: "FaultArrow \<in> set ls"
      by (force simp: ls_def)
    then obtain l ls' where c: "ls = l # ls'"
      by (cases ls) auto
    have "deliver (UncaughtException e) w =
            (case run_listeners ls (UncaughtException e) w of
               Normal w' \<Rightarrow> Continues w'
             | Throw e w' \<Rightarrow> Crashed e w')"
      unfolding deliver_def using c by (simp add: ls_def)
    then have "deliver (UncaughtException e) w =
               Continues ((open_log w)\<lparr>trace := trace w @
                 replicate (count_list ls FaultArrow) (LogError (js_String e))\<rparr>)"
      using mem by (simp add: run_listeners_unmatched [OF n lw])
    then show "deliver (UncaughtException e) w =
               Continues ((open_log w)\<lparr>trace := trace w @
                 replicate
                   (count_list (map snd (filter (\<lambda>(name, l). name = ''uncaughtException'')
                                           (listeners w))) FaultArrow)
                   (LogError (js_String e))\<rparr>)"
      by (simp add: ls_def)
  }
qed

theorem uncaught_fault_handling_witness:
  "js_match (js_String (ErrorObj ''Error'' ''non-zero exit code 255 while running: ipfs daemon''))
     interrupt_pattern \<noteq> None
   \<and> fault_arrow (ErrorObj ''Error'' ''non-zero exit code 255 while running: ipfs daemon'') example_ready
       = stop example_ready
   \<and> js_match (js_String (ErrorObj ''TypeError'' ''x is not a function'')) interrupt_pattern = None
   \<and> log_writable example_ready
   \<and> is_ready example_ready
   \<and> (''uncaughtException'', FaultArrow) \<in> set (listeners example_ready)
   \<and> is_ready (world_of (fault_arrow (ErrorObj ''TypeError'' ''x is not a function'') example_ready))
   \<and> deliver (UncaughtException (ErrorObj ''TypeError'' ''x is not a function'')) example_ready =
       Continues (example_ready\<lparr>log_writer := True, trace := trace example_ready @
                    [LogError ''TypeError: x is not a function'']\<rparr>)"
proof -
  let ?e1 = "ErrorObj ''Error'' ''non-zero exit code 255 while running: ipfs daemon''"
  let ?e2 = "ErrorObj ''TypeError'' ''x is not a function''"
  have m: "js_match (js_String ?e1) interrupt_pattern \<noteq> None"
    by code_simp
  have n: "js_match (js_String ?e2) interrupt_pattern = None"
    by code_simp
  have r: "is_ready example_ready"
    by code_simp
  have lw: "log_writable example_ready"
    by code_simp
  have l: "listeners example_ready =
     [(''SIGINT'', SignalArrow), (''SIGTERM'', SignalArrow), (''uncaughtException'', FaultArrow)]"
    by code_simp
  have f: "logfile example_ready = Some ''/tmp/ipfs-daemon.log''"
    by code_simp
  have reg: "(''uncaughtException'', FaultArrow) \<in> set (listeners example_ready)"
    by (simp add: l)
  have t1: "fault_arrow ?e1 example_ready = stop example_ready"
    using uncaught_fault_handling [of ?e1 example_ready] m by blast
  have t2: "is_ready (world_of (fault_arrow ?e2 example_ready))"
    using uncaught_fault_handling [of ?e2 example_ready] n lw r by blast
  have "deliver (UncaughtException ?e2) example_ready =
          Continues ((open_log example_ready)\<lparr>trace := trace example_ready @
            replicate
              (count_list (map snd (filter (\<lambda>(name, l). name = ''uncaughtException'')
                                      (listeners example_ready))) FaultArrow)
              (LogError (js_String ?e2))\<rparr>)"
    using uncaught_fault_handling [of ?e2 example_ready] n lw reg by blast
  then have t3: "deliver (UncaughtException ?e2) example_ready =
       Continues (example_ready\<lparr>log_writer := True, trace := trace example_ready @
                    [LogError ''TypeError: x is not a function'']\<rparr>)"
    by (simp add: l open_log_def f)
  show ?thesis
    using m n r lw reg t1 t2 t3 by blast
qed


section \<open>Construction\<close>

lemma opts_unbound: "''opts'' \<notin> set initDaemon_bindings"
  by (simp add: initDaemon_bindings_def)

lemma init_callback_eval:
  "init_callback err opts p w =
     (case truthy_error err of
        None \<Rightarrow> (settle p Fulfilled, w)
      | Some e \<Rightarrow>
          (case js_match (js_String e) migration_pattern of
             None \<Rightarrow> (p, w)
           | Some m \<Rightarrow> (p, add_effect (Uncaught (ReferenceError ''opts is not defined'')) w)))"
  by (simp add: init_callback_def opts_unbound split: option.splits)

lemma trace_init_callback:
  "\<exists>r. trace (snd (init_callback err opts p w)) = trace w @ r"
  by (simp add: init_callback_eval add_effect_def split: option.splits)

lemma trace_local_callback:
  "\<exists>r. trace (snd (local_callback ext opts w)) = trace w @ r"
proof (cases "snd (local_reply ext)")
  case None
  then show ?thesis
    by (simp add: local_callback_def Let_def log_debug_def add_effect_def)
next
  case (Some n)
  obtain r where "trace (snd (init_callback (init_reply ext) opts
        (case truthy_error (fst (local_reply ext)) of Some e \<Rightarrow> Rejected e | None \<Rightarrow> Pending)
        (add_effect (DaemonInit (obj_get opts ''IpfsDataDir''))
          (log_debug [''Using IPFS repo at '' @ quote @ path n @ quote]
            (log_debug [''Initializing IPFS daemon''] (w\<lparr>this_daemon := snd (local_reply ext)\<rparr>))))))
      = trace (add_effect (DaemonInit (obj_get opts ''IpfsDataDir''))
          (log_debug [''Using IPFS repo at '' @ quote @ path n @ quote]
            (log_debug [''Initializing IPFS daemon''] (w\<lparr>this_daemon := snd (local_reply ext)\<rparr>)))) @ r"
    using trace_init_callback by blast
  then show ?thesis
    by (simp add: local_callback_def Let_def Some log_debug_def add_effect_def)
qed

lemma trace_start_callback:
  "\<exists>r. trace (snd (start_callback ext d w)) = trace w @ r"
  by (simp add: start_callback_def Let_def log_debug_def add_effect_def
      split: option.splits prod.splits)

lemma trace_startDaemon:
  "\<exists>r. trace (snd (startDaemon ext w)) = trace w @ r"
proof (cases "this_daemon w")
  case None
  then show ?thesis
    by (simp add: startDaemon_def Let_def log_debug_def add_effect_def)
next
  case d: (Some d)
  show ?thesis
  proof (cases "this_options w")
    case None
    then show ?thesis
      by (simp add: startDaemon_def Let_def log_debug_def add_effect_def d)
  next
    case (Some opts)
    obtain r where "trace (snd (start_callback ext d
          (add_effect (StartDaemon (obj_get opts ''Flags'')) (log_debug [''Starting IPFS daemon''] w))))
        = trace (add_effect (StartDaemon (obj_get opts ''Flags'')) (log_debug [''Starting IPFS daemon''] w)) @ r"
      using trace_start_callback by blast
    then show ?thesis
      by (simp add: startDaemon_def Let_def log_debug_def add_effect_def d Some)
  qed
qed

lemma trace_startup_begins:
  assumes "this_options w = Some opts"
  shows "\<exists>rest. trace (startup ext w) =
           trace w @ IpfsdLocal (obj_get opts ''IpfsDataDir'') opts # rest"
proof -
  let ?w0 = "add_effect (IpfsdLocal (obj_get opts ''IpfsDataDir'') opts) w"
  obtain p w1 where i: "initDaemon ext w = (p, w1)"
    by (cases "initDaemon ext w")
  have "w1 = snd (local_callback ext opts ?w0)"
    using i assms by (simp add: initDaemon_def)
  then obtain r1 where r1: "trace w1 = trace ?w0 @ r1"
    using trace_local_callback by blast
  obtain p2 w2 where s: "startDaemon ext w1 = (p2, w2)"
    by (cases "startDaemon ext w1")
  then have "w2 = snd (startDaemon ext w1)" by simp
  then obtain r2 where r2: "trace w2 = trace w1 @ r2"
    using trace_startDaemon by blast
  show ?thesis
    using i s r1 r2
    by (cases p; cases p2) (simp_all add: startup_def emit_def add_effect_def)
qed


lemma mkdirs_Normal:
  "mkdirs fs ds = Normal fs' \<Longrightarrow>
   set ds \<subseteq> set (dirs fs') \<and> set (dirs fs) \<subseteq> set (dirs fs')"
proof (induction ds arbitrary: fs)
  case Nil
  then show ?case by simp
next
  case (Cons d ds)
  show ?case
  proof (cases "d \<in> set (dirs fs)")
    case True
    with Cons.prems have "mkdirs fs ds = Normal fs'" by simp
    from Cons.IH [OF this] True show ?thesis by auto
  next
    case False
    with Cons.prems have nd: "d \<notin> set (denied fs)"
      by (auto split: if_splits)
    with False Cons.prems have "mkdirs (fs\<lparr>dirs := dirs fs @ [d]\<rparr>) ds = Normal fs'"
      by simp
    from Cons.IH [OF this] show ?thesis by auto
  qed
qed

lemma mkdirs_returns:
  "\<forall>d \<in> set ds. d \<notin> set (denied fs) \<Longrightarrow> returns (mkdirs fs ds)"
proof (induction ds arbitrary: fs)
  case Nil
  then show ?case by simp
next
  case (Cons d ds)
  have "\<forall>x \<in> set ds. x \<notin> set (denied (fs\<lparr>dirs := dirs fs @ [d]\<rparr>))"
    using Cons.prems by simp
  then have "returns (mkdirs (fs\<lparr>dirs := dirs fs @ [d]\<rparr>) ds)"
    by (rule Cons.IH)
  moreover have "returns (mkdirs fs ds)"
    using Cons.prems by (intro Cons.IH) simp
  ultimately show ?case
    using Cons.prems by simp
qed

lemma ensure_data_dir_Normal:
  assumes "\<not> existsSync (files w) dir" and "ensure_data_dir dir w = Normal w2"
  shows "existsSync (files w2) dir"
    and "\<forall>a \<in> set (ancestors dir). existsSync (files w2) a"
    and "w2 = add_effect (Mkdirp dir) (w\<lparr>files := files w2\<rparr>)"
proof -
  from assms obtain fs' where m: "mkdirp_sync (files w) dir = Normal fs'"
    and w2: "w2 = add_effect (Mkdirp dir) (w\<lparr>files := fs'\<rparr>)"
    by (auto simp: ensure_data_dir_def split: completion.splits)
  have f: "files w2 = fs'"
    by (simp add: w2 add_effect_def)
  from m have "set (ancestors dir @ [dir]) \<subseteq> set (dirs fs')"
    unfolding mkdirp_sync_def by (rule mkdirs_Normal [THEN conjunct1])
  then show "existsSync (files w2) dir" and "\<forall>a \<in> set (ancestors dir). existsSync (files w2) a"
    by (auto simp: existsSync_def f)
  show "w2 = add_effect (Mkdirp dir) (w\<lparr>files := files w2\<rparr>)"
    using w2 f by simp
qed

lemma ensure_data_dir_Throw:
  assumes "\<not> existsSync (files w) dir" and "ensure_data_dir dir w = Throw err w2"
  shows "trace w2 = trace w @ [Mkdirp dir]"
  using assms by (auto simp: ensure_data_dir_def add_effect_def split: completion.splits)

text \<open>
  Claim C8. Let the configured data directory be a path that does not exist when the
  constructor runs. If the synchronous part of the constructor returns, the directory and
  all its ancestors exist in the state in which the startup sequence begins, the call of
  \<^verbatim>\<open>mkdirp.sync\<close> precedes every call of the sequence, and the sequence opens with the
  construction of the controller for that directory. If it throws, the startup sequence
  does not begin. It returns whenever no directory on the path is refused by the
  filesystem and the log directory is a string.
\<close>

theorem constructor_creates_data_dir:
  assumes dir: "obj_get (merge_options e options) ''IpfsDataDir'' = JStr dir"
      and missing: "\<not> existsSync (files w) dir"
  shows "(case constructor_sync e options w of
            Normal w1 \<Rightarrow>
              construct e options ext w = Normal (startup ext w1)
              \<and> existsSync (files w1) dir
              \<and> (\<forall>a \<in> set (ancestors dir). existsSync (files w1) a)
              \<and> (\<exists>logfile. trace w1 = trace w @ [Mkdirp dir, SetLogfile logfile])
              \<and> (\<exists>rest. trace (startup ext w1) =
                    trace w1 @ IpfsdLocal (JStr dir) (merge_options e options) # rest)
          | Throw err w1 \<Rightarrow>
              construct e options ext w = Throw err w1
              \<and> trace w1 = trace w @ [Mkdirp dir])
       \<and> ((\<forall>d \<in> set (ancestors dir @ [dir]). d \<notin> set (denied (files w)))
            \<and> (\<exists>logdir. obj_get (merge_options e options) ''LogDirectory'' = JStr logdir)
          \<longrightarrow> returns (constructor_sync e options w))"
proof (intro conjI impI)
  let ?opts = "merge_options e options"
  let ?w0 = "w\<lparr>GatewayAddress := None, APIAddress := None,
                this_options := Some ?opts, this_daemon := None\<rparr>"
  have missing0: "\<not> existsSync (files ?w0) dir"
    using missing by simp
  show "case constructor_sync e options w of
            Normal w1 \<Rightarrow>
              construct e options ext w = Normal (startup ext w1)
              \<and> existsSync (files w1) dir
              \<and> (\<forall>a \<in> set (ancestors dir). existsSync (files w1) a)
              \<and> (\<exists>logfile. trace w1 = trace w @ [Mkdirp dir, SetLogfile logfile])
              \<and> (\<exists>rest. trace (startup ext w1) =
                    trace w1 @ IpfsdLocal (JStr dir) (merge_options e options) # rest)
          | Throw err w1 \<Rightarrow>
              construct e options ext w = Throw err w1
              \<and> trace w1 = trace w @ [Mkdirp dir]"
  proof (cases "constructor_sync e options w")
    case (Normal w1)
    then obtain w2 logdir where e2: "ensure_data_dir dir ?w0 = Normal w2"
      and w1: "w1 = register_listeners
                 ((add_effect (SetLogfile (path_join logdir ''/ipfs-daemon.log'')) w2)
                    \<lparr>logfile := Some (path_join logdir ''/ipfs-daemon.log'')\<rparr>)"
      by (auto simp: constructor_sync_def Let_def dir split: completion.splits jsval.splits)
    note created = ensure_data_dir_Normal [OF missing0 e2]
    have o: "this_options w1 = Some ?opts"
      by (subst w1, subst created(3)) (simp add: register_listeners_def add_effect_def)
    have t: "trace w1 = trace w @ [Mkdirp dir, SetLogfile (path_join logdir ''/ipfs-daemon.log'')]"
      by (subst w1, subst created(3)) (simp add: register_listeners_def add_effect_def)
    have f: "files w1 = files w2"
      by (simp add: w1 register_listeners_def add_effect_def)
    have "\<exists>rest. trace (startup ext w1) = trace w1 @ IpfsdLocal (JStr dir) ?opts # rest"
      using trace_startup_begins [OF o, of ext] by (simp add: dir)
    then show ?thesis
      using created(1,2) t by (simp add: Normal construct_def f)
  next
    case (Throw err w1)
    then have "ensure_data_dir dir ?w0 = Throw err w1
        \<or> (\<exists>w2. ensure_data_dir dir ?w0 = Normal w2 \<and> w1 = w2)"
      by (auto simp: constructor_sync_def Let_def dir split: completion.splits jsval.splits)
    then have "trace w1 = trace w @ [Mkdirp dir]"
    proof
      assume "ensure_data_dir dir ?w0 = Throw err w1"
      from ensure_data_dir_Throw [OF missing0 this] show ?thesis by simp
    next
      assume "\<exists>w2. ensure_data_dir dir ?w0 = Normal w2 \<and> w1 = w2"
      then have e2: "ensure_data_dir dir ?w0 = Normal w1" by blast
      show ?thesis
        by (subst ensure_data_dir_Normal(3) [OF missing0 e2]) (simp add: add_effect_def)
    qed
    then show ?thesis
      by (simp add: Throw construct_def)
  qed
next
  let ?opts = "merge_options e options"
  let ?w0 = "w\<lparr>GatewayAddress := None, APIAddress := None,
                this_options := Some ?opts, this_daemon := None\<rparr>"
  assume a: "(\<forall>d \<in> set (ancestors dir @ [dir]). d \<notin> set (denied (files w)))
            \<and> (\<exists>logdir. obj_get (merge_options e options) ''LogDirectory'' = JStr logdir)"
  then obtain logdir where l: "obj_get ?opts ''LogDirectory'' = JStr logdir" by blast
  from a have "returns (mkdirs (files w) (ancestors dir @ [dir]))"
    by (intro mkdirs_returns) blast
  then obtain fs' where "mkdirp_sync (files w) dir = Normal fs'"
    by (cases "mkdirs (files w) (ancestors dir @ [dir])") (simp_all add: mkdirp_sync_def)
  then show "returns (constructor_sync e options w)"
    using missing by (simp add: constructor_sync_def Let_def dir l ensure_data_dir_def)
qed

theorem constructor_creates_data_dir_witness:
  "obj_get (merge_options None (Some [(''IpfsDataDir'', JStr ''/tmp/orbit/ipfs'')])) ''IpfsDataDir''
     = JStr ''/tmp/orbit/ipfs''
   \<and> \<not> existsSync (files (fresh_world \<lparr>dirs = [''/tmp''], denied = []\<rparr> [])) ''/tmp/orbit/ipfs''
   \<and> returns (constructor_sync None (Some [(''IpfsDataDir'', JStr ''/tmp/orbit/ipfs'')])
        (fresh_world \<lparr>dirs = [''/tmp''], denied = []\<rparr> []))
   \<and> existsSync (files (world_of (constructor_sync None (Some [(''IpfsDataDir'', JStr ''/tmp/orbit/ipfs'')])
        (fresh_world \<lparr>dirs = [''/tmp''], denied = []\<rparr> [])))) ''/tmp/orbit/ipfs''
   \<and> existsSync (files (world_of (constructor_sync None (Some [(''IpfsDataDir'', JStr ''/tmp/orbit/ipfs'')])
        (fresh_world \<lparr>dirs = [''/tmp''], denied = []\<rparr> [])))) ''/tmp/orbit''"
proof -
  let ?o = "Some [(''IpfsDataDir'', JStr ''/tmp/orbit/ipfs'')]"
  let ?w = "fresh_world \<lparr>dirs = [''/tmp''], denied = []\<rparr> []"
  have d: "obj_get (merge_options None ?o) ''IpfsDataDir'' = JStr ''/tmp/orbit/ipfs''"
    by code_simp
  have m: "\<not> existsSync (files ?w) ''/tmp/orbit/ipfs''"
    by code_simp
  have a: "ancestors ''/tmp/orbit/ipfs'' = [''/tmp'', ''/tmp/orbit'']"
    by code_simp
  have p: "(\<forall>d \<in> set (ancestors ''/tmp/orbit/ipfs'' @ [''/tmp/orbit/ipfs'']). d \<notin> set (denied (files ?w)))
     \<and> (\<exists>logdir. obj_get (merge_options None ?o) ''LogDirectory'' = JStr logdir)"
    by (simp add: a fresh_world_def obj_get_def map_of_merge_options defaultOptions_def)
  note t = constructor_creates_data_dir [OF d m, of example_ext]
  from t p have r: "returns (constructor_sync None ?o ?w)" by blast
  then obtain w1 where n: "constructor_sync None ?o ?w = Normal w1"
    by (cases "constructor_sync None ?o ?w") simp_all
  from t have "existsSync (files w1) ''/tmp/orbit/ipfs''
      \<and> (\<forall>a \<in> set (ancestors ''/tmp/orbit/ipfs''). existsSync (files w1) a)"
    by (simp add: n)
  then have "existsSync (files w1) ''/tmp/orbit/ipfs''" "existsSync (files w1) ''/tmp/orbit''"
    by (simp_all add: a)
  then show ?thesis
    using d m r by (simp add: n)
qed


section \<open>The startup sequence\<close>

lemma constructor_sync_fresh:
  assumes "constructor_sync e options (fresh_world fs ls) = Normal w1"
  shows "this_options w1 = Some (merge_options e options)"
    and "emitted name w1 = []"
proof -
  let ?opts = "merge_options e options"
  let ?w0 = "(fresh_world fs ls)\<lparr>GatewayAddress := None, APIAddress := None,
                this_options := Some ?opts, this_daemon := None\<rparr>"
  from assms obtain dir logdir w2 where e2: "ensure_data_dir dir ?w0 = Normal w2"
      and w1: "w1 = register_listeners
                 ((add_effect (SetLogfile (path_join logdir ''/ipfs-daemon.log'')) w2)
                    \<lparr>logfile := Some (path_join logdir ''/ipfs-daemon.log'')\<rparr>)"
    by (auto simp: constructor_sync_def Let_def split: completion.splits jsval.splits)
  from e2 have "this_options w2 = Some ?opts \<and> (trace w2 = [] \<or> trace w2 = [Mkdirp dir])"
    by (auto simp: ensure_data_dir_def add_effect_def fresh_world_def
        split: if_splits completion.splits)
  then show "this_options w1 = Some (merge_options e options)" and "emitted name w1 = []"
    by (auto simp: w1 register_listeners_def add_effect_def emitted_def)
qed

lemma startup_success:
  assumes o: "this_options w = Some opts"
      and l: "truthy_error (fst (local_reply ext)) = None" "snd (local_reply ext) = Some n"
      and i: "truthy_error (init_reply ext) = None"
      and s: "truthy_error (start_err ext) = None"
      and a: "start_ipfs ext = Some (host, port)"
  shows "emitted name (startup ext w) =
           emitted name w @ (if name = ''ready'' then [Emit ''ready'' None] else [])"
    and "APIAddress (startup ext w) = Some (host @ '':'' @ port)"
    and "GatewayAddress (startup ext w) =
           (case start_gateway ext of
              None \<Rightarrow> GatewayAddress w
            | Some g \<Rightarrow> if g = [] then GatewayAddress w else Some (g @ ''/ipfs/''))"
    and "is_ready (startup ext w)"
proof -
  have init: "initDaemon ext w =
      (Fulfilled,
       add_effect (DaemonInit (obj_get opts ''IpfsDataDir''))
         (log_debug [''Using IPFS repo at '' @ quote @ path n @ quote]
           (log_debug [''Initializing IPFS daemon'']
             ((add_effect (IpfsdLocal (obj_get opts ''IpfsDataDir'') opts) w)
                \<lparr>this_daemon := Some n\<rparr>))))"
    by (simp add: initDaemon_def o local_callback_def Let_def l init_callback_eval i)
  let ?w1 = "snd (initDaemon ext w)"
  have f1: "this_daemon ?w1 = Some n" "this_options ?w1 = Some opts"
      "GatewayAddress ?w1 = GatewayAddress w"
      "emitted name ?w1 = emitted name w"
    by (simp_all add: init o log_debug_def add_effect_def emitted_def)
  obtain w2 where start: "startDaemon ext ?w1 = (Fulfilled, w2)"
      and f2: "APIAddress w2 = Some (host @ '':'' @ port)"
        "GatewayAddress w2 =
           (case start_gateway ext of
              None \<Rightarrow> GatewayAddress w
            | Some g \<Rightarrow> if g = [] then GatewayAddress w else Some (g @ ''/ipfs/''))"
        "this_daemon w2 \<noteq> None" "this_options w2 \<noteq> None"
        "emitted name w2 = emitted name w"
    using f1
    by (cases "start_gateway ext")
       (simp_all add: startDaemon_def start_callback_def Let_def s a
          log_debug_def add_effect_def emitted_def)
  have st: "startup ext w = emit ''ready'' None w2"
    using start by (simp add: startup_def init)
  show "emitted name (startup ext w) =
           emitted name w @ (if name = ''ready'' then [Emit ''ready'' None] else [])"
    using f2(5) by (auto simp: st emit_def add_effect_def emitted_def)
  show "APIAddress (startup ext w) = Some (host @ '':'' @ port)"
    using f2(1) by (simp add: st emit_def add_effect_def)
  show "GatewayAddress (startup ext w) =
           (case start_gateway ext of
              None \<Rightarrow> GatewayAddress w
            | Some g \<Rightarrow> if g = [] then GatewayAddress w else Some (g @ ''/ipfs/''))"
    using f2(2) by (simp add: st emit_def add_effect_def)
  show "is_ready (startup ext w)"
    using f2(1,3,4) by (simp add: st emit_def add_effect_def is_ready_def)
qed

text \<open>
  Claim C1. In a fresh host, when the constructor's synchronous part returns and all
  four phases succeed (the controller is constructed, the repository is initialised,
  the process starts and reports its API host and port), the run emits exactly one
  \<^verbatim>\<open>ready\<close> event and no \<^verbatim>\<open>error\<close> event, \<^verbatim>\<open>APIAddress\<close> is \<^verbatim>\<open>host:port\<close>, and
  \<^verbatim>\<open>GatewayAddress\<close> is the reported gateway address followed by \<^verbatim>\<open>/ipfs/\<close> when the
  process reports one (a non-empty string) and stays \<^verbatim>\<open>null\<close> otherwise.
\<close>

theorem successful_startup_ready:
  assumes c: "constructor_sync e options (fresh_world fs ls) = Normal w1"
      and l: "truthy_error (fst (local_reply ext)) = None" "snd (local_reply ext) = Some n"
      and i: "truthy_error (init_reply ext) = None"
      and s: "truthy_error (start_err ext) = None"
      and a: "start_ipfs ext = Some (host, port)"
  shows "\<exists>w. construct e options ext (fresh_world fs ls) = Normal w
           \<and> emitted ''ready'' w = [Emit ''ready'' None]
           \<and> emitted ''error'' w = []
           \<and> APIAddress w = Some (host @ '':'' @ port)
           \<and> GatewayAddress w =
               (case start_gateway ext of
                  None \<Rightarrow> None
                | Some g \<Rightarrow> if g = [] then None else Some (g @ ''/ipfs/''))
           \<and> is_ready w"
proof -
  note o = constructor_sync_fresh(1) [OF c]
  have g: "GatewayAddress w1 = None"
    using c
    by (auto simp: constructor_sync_def Let_def ensure_data_dir_def register_listeners_def
        add_effect_def split: completion.splits jsval.splits if_splits)
  note su = startup_success [OF o l i s a]
  have "construct e options ext (fresh_world fs ls) = Normal (startup ext w1)"
    by (simp add: construct_def c)
  moreover have "emitted ''ready'' (startup ext w1) = [Emit ''ready'' None]"
    by (simp add: su(1) constructor_sync_fresh(2) [OF c])
  moreover have "emitted ''error'' (startup ext w1) = []"
    by (simp add: su(1) constructor_sync_fresh(2) [OF c])
  moreover have "GatewayAddress (startup ext w1) =
               (case start_gateway ext of
                  None \<Rightarrow> None
                | Some g \<Rightarrow> if g = [] then None else Some (g @ ''/ipfs/''))"
    by (simp only: su(3) g)
  ultimately show ?thesis
    using su(2,4) by blast
qed

theorem successful_startup_ready_witness:
  "returns (constructor_sync None None (fresh_world example_fs []))
   \<and> truthy_error (fst (local_reply example_ext)) = None
   \<and> truthy_error (init_reply example_ext) = None
   \<and> truthy_error (start_err example_ext) = None
   \<and> emitted ''ready'' example_ready = [Emit ''ready'' None]
   \<and> emitted ''error'' example_ready = []
   \<and> APIAddress example_ready = Some ''127.0.0.1:5001''
   \<and> GatewayAddress example_ready = Some ''/ip4/0.0.0.0/tcp/8080/ipfs/''"
proof -
  have r: "returns (constructor_sync None None (fresh_world example_fs []))"
    by code_simp
  then obtain w1 where c: "constructor_sync None None (fresh_world example_fs []) = Normal w1"
    by (cases "constructor_sync None None (fresh_world example_fs [])") simp_all
  have l: "truthy_error (fst (local_reply example_ext)) = None"
      "snd (local_reply example_ext) = Some \<lparr>path = ''./ipfs'', gatewayAddr = None\<rparr>"
    by (simp_all add: example_ext_def)
  have i: "truthy_error (init_reply example_ext) = None"
    by (simp add: example_ext_def)
  have s: "truthy_error (start_err example_ext) = None"
    by (simp add: example_ext_def)
  have a: "start_ipfs example_ext = Some (''127.0.0.1'', ''5001'')"
    by (simp add: example_ext_def)
  have g: "start_gateway example_ext = Some ''/ip4/0.0.0.0/tcp/8080''"
    by (simp add: example_ext_def)
  from successful_startup_ready [OF c l i s a]
  obtain w where w: "construct None None example_ext (fresh_world example_fs []) = Normal w"
      "emitted ''ready'' w = [Emit ''ready'' None]" "emitted ''error'' w = []"
      "APIAddress w = Some (''127.0.0.1'' @ '':'' @ ''5001'')"
      "GatewayAddress w =
         (case start_gateway example_ext of
            None \<Rightarrow> None
          | Some g \<Rightarrow> if g = [] then None else Some (g @ ''/ipfs/''))"
    by blast
  have "example_ready = w"
    by (simp add: example_ready_def w(1))
  then show ?thesis
    using r l(1) i s w(2,3,4,5) by (simp add: g)
qed

lemma init_failure_pending:
  assumes o: "this_options w = Some opts"
      and l: "truthy_error (fst (local_reply ext)) = None" "snd (local_reply ext) = Some n"
      and i: "truthy_error (init_reply ext) = Some err"
  shows "fst (initDaemon ext w) = Pending"
    and "emitted name (startup ext w) = emitted name w"
proof -
  show p: "fst (initDaemon ext w) = Pending"
    by (simp add: initDaemon_def o local_callback_def Let_def l init_callback_eval i
        split: option.splits)
  obtain w1 where w1: "initDaemon ext w = (Pending, w1)"
    using p by (cases "initDaemon ext w") simp
  have "emitted name w1 = emitted name w"
    using w1
    by (auto simp: initDaemon_def o local_callback_def Let_def l init_callback_eval i
        log_debug_def add_effect_def emitted_def split: option.splits)
  then show "emitted name (startup ext w) = emitted name w"
    by (simp add: startup_def w1)
qed

text \<open>
  Claim C3 on the example run: the initialisation fails with a message that does not
  contain \<^verbatim>\<open>ipfs repo needs migration\<close>. The promise of \<^verbatim>\<open>_initDaemon\<close> stays pending,
  and the run ends with neither an \<^verbatim>\<open>error\<close> nor a \<^verbatim>\<open>ready\<close> event.
\<close>

theorem init_failure_never_surfaces:
  "truthy_error (init_reply example_init_failure) =
     Some (ErrorObj ''Error'' ''mkdir ./ipfs/blocks: permission denied'')
   \<and> js_match ''Error: mkdir ./ipfs/blocks: permission denied'' migration_pattern = None
   \<and> returns (construct None None example_init_failure (fresh_world example_fs []))
   \<and> fst (initDaemon example_init_failure
            (world_of (constructor_sync None None (fresh_world example_fs [])))) = Pending
   \<and> emitted ''error''
       (world_of (construct None None example_init_failure (fresh_world example_fs []))) = []
   \<and> emitted ''ready''
       (world_of (construct None None example_init_failure (fresh_world example_fs []))) = []"
  by code_simp

text \<open>
  Claim C4 on the example run: the initialisation fails with
  \<^verbatim>\<open>ipfs repo needs migration\<close>. The pattern matches, line 94 reads the unbound name
  \<^verbatim>\<open>opts\<close>, and the callback ends in a \<^verbatim>\<open>ReferenceError\<close> before lines 97 and 99: the
  promise stays pending and no \<^verbatim>\<open>error\<close> event is emitted. The exception reaches the
  host as an uncaught exception, where the supervisor's own listener logs it; that one
  line, which is not a line of the remediation message, is all that is ever logged, and
  still no \<^verbatim>\<open>error\<close> event is emitted.
\<close>

theorem migration_failure_throws_reference_error:
  "truthy_error (init_reply example_migration) =
     Some (ErrorObj ''Error'' ''ipfs repo needs migration'')
   \<and> js_match ''Error: ipfs repo needs migration'' migration_pattern
       = Some ''ipfs repo needs migration''
   \<and> ''opts'' \<notin> set initDaemon_bindings
   \<and> returns (construct None None example_migration (fresh_world example_fs []))
   \<and> fst (initDaemon example_migration
            (world_of (constructor_sync None None (fresh_world example_fs [])))) = Pending
   \<and> Uncaught (ErrorObj ''ReferenceError'' ''opts is not defined'') \<in> set (trace example_migrated)
   \<and> emitted ''error'' example_migrated = []
   \<and> deliver (UncaughtException (ErrorObj ''ReferenceError'' ''opts is not defined''))
         example_migrated =
       Continues (example_migrated
         \<lparr>log_writer := True,
          trace := trace example_migrated @ [LogError ''ReferenceError: opts is not defined'']\<rparr>)
   \<and> emitted ''error''
         (host_world (deliver (UncaughtException (ErrorObj ''ReferenceError'' ''opts is not defined''))
            example_migrated)) = []
   \<and> filter (\<lambda>e. case e of LogError m \<Rightarrow> True | _ \<Rightarrow> False)
         (trace (host_world
            (deliver (UncaughtException (ErrorObj ''ReferenceError'' ''opts is not defined''))
               example_migrated))) =
       [LogError ''ReferenceError: opts is not defined'']"
  by code_simp

end
